theory Spec2Isabelle
  imports Complex_Main "HOL-Library.Word"
begin

section \<open>JavaScript values and failures\<close>

text \<open>
  The values that travel through the JSON-RPC client are typed \<open>unknown\<close> in the source.
  They are modelled by a datatype of JSON-like values, with \<open>JUndefined\<close> for the value
  of a missing argument, array slot or property. Numbers are integers: the correlation
  ids the client produces are integers, and a number that is not one differs from all of
  them. A parsed object is an association list read at its first binding for a key.
\<close>

datatype jsval =
    JUndefined
  | JNull
  | JBool bool
  | JNum int
  | JStr string
  | JArr "jsval list"
  | JObj "(string \<times> jsval) list"

text \<open>
  Every \<open>throw\<close> and every rejected promise of the source is a value of this type:
  \<^item> \<open>IdMismatched got expected\<close> is the
    \<^verbatim>\<open>new Error(`Id mismatched, got ${res.id}, expected ${payload.id}`)\<close> of \<open>send\<close>,
    kept with the two values its message is built from;
  \<^item> \<open>Thrown v\<close> is \<^verbatim>\<open>throw res.error\<close>: the thrown value is the response's error
    member itself;
  \<^item> \<open>AbortError\<close> is the value the runtime's \<open>fetch\<close> rejects with when the abort
    signal of the request fires;
  \<^item> \<open>TypeError\<close> is a property read on \<open>null\<close> or \<open>undefined\<close>;
  \<^item> \<open>RangeError\<close> is a number that does not fit the width it is encoded in;
  \<^item> \<open>Rejected why\<close> is a failure raised by a collaborator the source calls into
    (the HTTP transport, the body parser, a transformer, the wallet).
\<close>

datatype error =
    IdMismatched jsval int
  | Thrown jsval
  | AbortError
  | TypeError
  | RangeError
  | Rejected string

text \<open>Sequencing of fallible steps: the first failure ends the computation.\<close>

definition bind_err :: "error + 'a \<Rightarrow> ('a \<Rightarrow> error + 'b) \<Rightarrow> error + 'b" where
  "bind_err m f = (case m of Inl e \<Rightarrow> Inl e | Inr x \<Rightarrow> f x)"

text \<open>\<open>res.id\<close>, \<open>res.error\<close>, \<open>res.result\<close>: a property read.\<close>

fun get_prop :: "jsval \<Rightarrow> string \<Rightarrow> error + jsval" where
  "get_prop JUndefined k = Inl TypeError"
| "get_prop JNull k = Inl TypeError"
| "get_prop (JObj kvs) k = Inr (case map_of kvs k of Some v \<Rightarrow> v | None \<Rightarrow> JUndefined)"
| "get_prop v k = Inr JUndefined"

text \<open>The test of \<^verbatim>\<open>if (res.error)\<close>: JavaScript truthiness.\<close>

fun truthy :: "jsval \<Rightarrow> bool" where
  "truthy JUndefined = False"
| "truthy JNull = False"
| "truthy (JBool b) = b"
| "truthy (JNum n) = (n \<noteq> 0)"
| "truthy (JStr s) = (s \<noteq> [])"
| "truthy (JArr vs) = True"
| "truthy (JObj kvs) = True"

text \<open>\<^verbatim>\<open>v ?? d\<close>: the default replaces \<open>undefined\<close> and \<open>null\<close> only.\<close>

definition nullish :: "jsval \<Rightarrow> jsval \<Rightarrow> jsval" where
  "nullish v d = (if v = JUndefined \<or> v = JNull then d else v)"

text \<open>\<open>xs[i]\<close> on an array of optional entries: \<open>undefined\<close> past the end.\<close>

definition at_index :: "'a option list \<Rightarrow> nat \<Rightarrow> 'a option" where
  "at_index xs i = (if i < length xs then xs ! i else None)"

text \<open>\<open>Promise.all\<close> over the promises of already started computations.\<close>

fun Promise_all :: "(error + 'a) list \<Rightarrow> error + 'a list" where
  "Promise_all [] = Inr []"
| "Promise_all (p # ps) =
     (case p of
        Inl e \<Rightarrow> Inl e
      | Inr v \<Rightarrow> (case Promise_all ps of Inl e \<Rightarrow> Inl e | Inr vs \<Rightarrow> Inr (v # vs)))"

section \<open>The JSON-RPC client\<close>

text \<open>\<open>transform\<close>: apply the transformer when there is one.\<close>

definition transform :: "jsval \<Rightarrow> (jsval \<Rightarrow> error + jsval) option \<Rightarrow> error + jsval" where
  "transform val transformer =
     (case transformer of Some f \<Rightarrow> f val | None \<Rightarrow> Inr val)"

record JsonRpcPayload =
  rpc_id :: int
  rpc_method :: string
  params :: "jsval list"
  jsonrpc :: string

record ClientJsonRpc =
  url :: string
  timeout :: nat

text \<open>The constructor: the timeout defaults to 30000 ms.\<close>

definition new_ClientJsonRpc :: "string \<Rightarrow> nat option \<Rightarrow> ClientJsonRpc" where
  "new_ClientJsonRpc u t =
     \<lparr>url = u, timeout = (case t of None \<Rightarrow> 30000 | Some ms \<Rightarrow> ms)\<rparr>"

text \<open>
  \<open>Math.round\<close> gives the integer nearest to a double, a tie upwards; on the value of
  the double this is exact.
\<close>

definition Math_round :: "real \<Rightarrow> int" where
  "Math_round x = \<lfloor>x + 1 / 2\<rfloor>"

text \<open>
  \<^verbatim>\<open>Math.random() * 10000\<close> is a product of IEEE doubles, rounded to a double. Its
  value is the parameter \<open>scaled\<close> of the model: \<open>Math.random()\<close> is at least 0 and
  below 1, so \<open>0 \<le> scaled \<le> 10000\<close>.
\<close>

definition buildPayload :: "real \<Rightarrow> string \<Rightarrow> jsval list \<Rightarrow> JsonRpcPayload" where
  "buildPayload scaled method req =
     \<lparr>rpc_id = Math_round scaled,
      rpc_method = method,
      params = req,
      jsonrpc = ''2.0''\<rparr>"

text \<open>
  The transport is the \<open>fetch\<close> of the runtime followed by \<open>raw.json()\<close>. It is given
  the URL, the delay after which the request's abort signal fires, and the payload that
  is sent as the body. The outer result is the outcome of \<open>fetch\<close> (it rejects on a
  network failure and on an abort), the inner one the outcome of parsing the body.
\<close>

type_synonym transport = "string \<Rightarrow> nat \<Rightarrow> JsonRpcPayload \<Rightarrow> error + (error + jsval)"

definition send :: "transport \<Rightarrow> ClientJsonRpc \<Rightarrow> JsonRpcPayload \<Rightarrow> error + jsval" where
  "send fetch c payload =
     bind_err (fetch (url c) (timeout c) payload) (\<lambda>raw.
     bind_err raw (\<lambda>res.
     bind_err (get_prop res ''id'') (\<lambda>res_id.
       if res_id \<noteq> JNum (rpc_id payload)
       then Inl (IdMismatched res_id (rpc_id payload))
       else bind_err (get_prop res ''error'') (\<lambda>res_error.
         if truthy res_error then Inl (Thrown res_error)
         else get_prop res ''result''))))"

text \<open>
  The arguments of a sender, padded with \<open>undefined\<close> up to the number of input
  transformers, each passed through the transformer at its own index.
\<close>

definition padded_req :: "(jsval \<Rightarrow> error + jsval) option list \<Rightarrow> jsval list \<Rightarrow> jsval list" where
  "padded_req inTransformers req =
     req @ replicate (nat (max (int (length inTransformers) - int (length req)) 0)) JUndefined"

definition sender_params ::
  "(jsval \<Rightarrow> error + jsval) option list \<Rightarrow> jsval list \<Rightarrow> error + jsval list" where
  "sender_params inTransformers req =
     Promise_all
       (map (\<lambda>(v, i). transform v (at_index inTransformers i))
         (zip (padded_req inTransformers req) [0 ..< length (padded_req inTransformers req)]))"

text \<open>
  \<open>buildSender\<close>: the function it returns, applied to the arguments \<open>req\<close>. The first
  component of the result lists the payloads handed to \<open>send\<close>, the second is what
  the caller's promise settles to.
\<close>

definition buildSender ::
  "transport \<Rightarrow> ClientJsonRpc \<Rightarrow> real \<Rightarrow> string \<Rightarrow> (jsval \<Rightarrow> error + jsval) option list \<Rightarrow>
   (jsval \<Rightarrow> error + jsval) option \<Rightarrow> jsval list \<Rightarrow> JsonRpcPayload list \<times> (error + jsval)" where
  "buildSender fetch c scaled rpcMethod inTransformers outTransformer req =
     (case sender_params inTransformers req of
        Inl e \<Rightarrow> ([], Inl e)
      | Inr ps \<Rightarrow>
          (let payload = buildPayload scaled rpcMethod ps
           in ([payload], bind_err (send fetch c payload) (\<lambda>r. transform r outTransformer))))"

text \<open>
  The transformers of \<open>JsonRpcTransformers\<close> and \<open>numToHex\<close> are defined outside the
  files at hand; they are parameters.
\<close>

record JsonRpcTransformers =
  indexerSearchKeyFrom :: "jsval \<Rightarrow> error + jsval"
  findCellsResponseTo :: "jsval \<Rightarrow> error + jsval"
  numToHex :: "jsval \<Rightarrow> error + jsval"

definition findCellsPagedNoCache ::
  "JsonRpcTransformers \<Rightarrow> transport \<Rightarrow> ClientJsonRpc \<Rightarrow> real \<Rightarrow> jsval list \<Rightarrow>
   JsonRpcPayload list \<times> (error + jsval)" where
  "findCellsPagedNoCache T fetch c scaled req =
     buildSender fetch c scaled ''get_cells''
       [Some (indexerSearchKeyFrom T),
        Some (\<lambda>order. Inr (nullish order (JStr ''asc''))),
        Some (\<lambda>limit. numToHex T (nullish limit (JNum 10)))]
       (Some (findCellsResponseTo T)) req"

text \<open>The argument at position \<open>i\<close> of a call: \<open>undefined\<close> when it is not supplied.\<close>

definition arg_at :: "jsval list \<Rightarrow> nat \<Rightarrow> jsval" where
  "arg_at req i = (if i < length req then req ! i else JUndefined)"

section \<open>The hasher\<close>

type_synonym byte = "8 word"
type_synonym bytes = "byte list"

text \<open>
  The \<open>blake2b\<close> package is a library the repository depends on; its three operations
  (\<open>blake2b_create\<close> is the call \<open>blake2b(outLength, undefined, undefined, personal)\<close>)
  are parameters, with the state of a \<open>Blake2b\<close> object as the type \<open>'h\<close>. So are
  \<open>bytesFrom\<close> (on a \<open>BytesLike\<close> value of type \<open>'b\<close>, where it can throw, and on a
  string read as UTF-8) and the constant \<open>CKB_BLAKE2B_PERSONAL\<close>, which are defined
  outside the files at hand.
\<close>

record ('h, 'b) hash_env =
  blake2b_create :: "nat \<Rightarrow> bytes \<Rightarrow> 'h"
  blake2b_update :: "'h \<Rightarrow> bytes \<Rightarrow> 'h"
  blake2b_digest_hex :: "'h \<Rightarrow> string"
  bytesFrom :: "'b \<Rightarrow> error + bytes"
  bytesFrom_utf8 :: "string \<Rightarrow> bytes"
  CKB_BLAKE2B_PERSONAL :: string

record 'h Hasher =
  hasher :: 'h

definition new_Hasher :: "('h, 'b) hash_env \<Rightarrow> nat option \<Rightarrow> string option \<Rightarrow> 'h Hasher" where
  "new_Hasher env outLength personal =
     \<lparr>hasher = blake2b_create env (case outLength of None \<Rightarrow> 32 | Some n \<Rightarrow> n)
        (bytesFrom_utf8 env
           (case personal of None \<Rightarrow> CKB_BLAKE2B_PERSONAL env | Some s \<Rightarrow> s))\<rparr>"

text \<open>\<open>update\<close> mutates the hasher and returns it; the model returns the new state.\<close>

definition Hasher_update :: "('h, 'b) hash_env \<Rightarrow> 'h Hasher \<Rightarrow> 'b \<Rightarrow> error + 'h Hasher" where
  "Hasher_update env h data =
     bind_err (bytesFrom env data) (\<lambda>bs. Inr (h\<lparr>hasher := blake2b_update env (hasher h) bs\<rparr>))"

definition Hasher_digest :: "('h, 'b) hash_env \<Rightarrow> 'h Hasher \<Rightarrow> string" where
  "Hasher_digest env h = ''0x'' @ blake2b_digest_hex env (hasher h)"

text \<open>\<^verbatim>\<open>data.forEach((d) => hasher.update(d))\<close>\<close>

fun forEach_update :: "('h, 'b) hash_env \<Rightarrow> 'h Hasher \<Rightarrow> 'b list \<Rightarrow> error + 'h Hasher" where
  "forEach_update env h [] = Inr h"
| "forEach_update env h (d # ds) =
     bind_err (Hasher_update env h d) (\<lambda>h'. forEach_update env h' ds)"

definition ckbHash :: "('h, 'b) hash_env \<Rightarrow> 'b list \<Rightarrow> error + string" where
  "ckbHash env data =
     bind_err (forEach_update env (new_Hasher env None None) data)
       (\<lambda>h. Inr (Hasher_digest env h))"

text \<open>
  The contract of a streaming hash, stated for the library: absorbing \<open>u\<close> and then
  \<open>v\<close> gives the digest of absorbing \<open>u @ v\<close> at once.
\<close>

definition streaming :: "('h, 'b) hash_env \<Rightarrow> bool" where
  "streaming env \<longleftrightarrow>
     (\<forall>h u v. blake2b_digest_hex env (blake2b_update env (blake2b_update env h u) v)
              = blake2b_digest_hex env (blake2b_update env h (u @ v)))"

section \<open>Transactions\<close>

text \<open>
  Modelled from the spec: the domain model of \<open>ckb\<close> (Script, OutPoint, CellDep, the
  cell input and output, WitnessArgs, Transaction) is declared outside the files at
  hand; the records follow the data model of the specification, with byte sequences for
  the values the source holds as hex strings.
\<close>

datatype HashType = HashType_Data | HashType_Type | HashType_Data1 | HashType_Data2

record Script =
  codeHash :: bytes
  hashType :: HashType
  args :: bytes

record OutPoint =
  txHash :: bytes
  index :: "32 word"

datatype DepType = DepType_Code | DepType_DepGroup

record CellDep =
  outPoint :: OutPoint
  depType :: DepType

record CellInput =
  previousOutput :: OutPoint
  since :: "64 word"

record CellOutput =
  capacity :: "64 word"
  lockScript :: Script
  typeScript :: "Script option"

record WitnessArgs =
  lock :: "bytes option"
  inputType :: "bytes option"
  outputType :: "bytes option"

record Transaction =
  version :: "32 word"
  cellDeps :: "CellDep list"
  headerDeps :: "bytes list"
  inputs :: "CellInput list"
  outputs :: "CellOutput list"
  outputsData :: "bytes list"
  witnesses :: "bytes list"

record Address =
  script :: Script
  prefix :: string

record SignHashInfo =
  message :: string
  position :: nat

datatype KnownScript = OmniLock

text \<open>
  The objects a signer works on live in a store: an object is an index into \<open>heap\<close>,
  and a new object is allocated at the end. \<open>instances\<close> holds the objects that are
  instances of the class \<open>Transaction\<close>; the others are plain values of the shape
  \<open>TransactionLike\<close>. \<open>signRequests\<close> lists the texts handed to the message-signing
  provider, oldest first.
\<close>

record world =
  heap :: "Transaction list"
  instances :: "nat set"
  signRequests :: "string list"

text \<open>
  Modelled from the spec: \<open>Transaction.from\<close> (in \<open>ckb\<close>, outside the files at hand).
  By the specification a signer receives a transaction and produces a new or a mutated
  one: given an object that is a \<open>Transaction\<close> already, the result is that object
  itself, which is then the one the signer writes to; given a plain value, the result is
  a new \<open>Transaction\<close> with its fields.
\<close>

definition Transaction_from :: "world \<Rightarrow> nat \<Rightarrow> (error + nat) \<times> world" where
  "Transaction_from w txLike =
     (if length (heap w) \<le> txLike then (Inl TypeError, w)
      else if txLike \<in> instances w then (Inr txLike, w)
      else (Inr (length (heap w)),
            w\<lparr>heap := heap w @ [heap w ! txLike],
              instances := insert (length (heap w)) (instances w)\<rparr>))"

text \<open>\<open>xs[i]\<close> on an array: \<open>undefined\<close> past the end.\<close>

definition nth_opt :: "'a list \<Rightarrow> nat \<Rightarrow> 'a option" where
  "nth_opt xs i = (if i < length xs then Some (xs ! i) else None)"

section \<open>The Bitcoin signer\<close>

text \<open>
  What \<open>SignerBtc\<close> calls into and the files at hand do not define is a parameter:
  the abstract \<open>signMessageRaw\<close> of the wallet, \<open>getRecommendedAddressObj\<close> of the
  base class, the base64 reading of \<open>bytesFrom\<close>, the queries and updates of
  \<open>Transaction\<close> that go through the client (\<open>getSignHashInfo\<close>,
  \<open>addCellDepsOfKnownScripts\<close>, \<open>prepareSighashAllWitness\<close>) and the codec of
  \<open>WitnessArgs\<close>, whose decoder is given the slot read from the witness array.
\<close>

record signer_env =
  getRecommendedAddressObj :: "error + Address"
  getSignHashInfo :: "Transaction \<Rightarrow> Script \<Rightarrow> error + SignHashInfo option"
  signMessageRaw :: "string \<Rightarrow> error + string"
  bytesFrom_base64 :: "string \<Rightarrow> error + bytes"
  WitnessArgs_fromBytes :: "bytes option \<Rightarrow> error + WitnessArgs"
  WitnessArgs_toBytes :: "WitnessArgs \<Rightarrow> bytes"
  addCellDepsOfKnownScripts :: "Transaction \<Rightarrow> KnownScript \<Rightarrow> error + Transaction"
  prepareSighashAllWitness :: "Transaction \<Rightarrow> Script \<Rightarrow> nat \<Rightarrow> error + Transaction"

text \<open>The \<open>k\<close> low-order bytes of a number, least significant first.\<close>

fun le_bytes :: "nat \<Rightarrow> nat \<Rightarrow> bytes" where
  "le_bytes 0 n = []"
| "le_bytes (Suc k) n = of_nat (n mod 256) # le_bytes k (n div 256)"

text \<open>
  Modelled from the spec: \<open>numToBytes\<close> (in \<open>num\<close>, outside the files at hand).
  A fixed-size integer encodes little-endian at its fixed width, with no padding; a
  number that does not fit the width has no encoding.
\<close>

definition numToBytes :: "nat \<Rightarrow> nat \<Rightarrow> error + bytes" where
  "numToBytes val width = (if val < 256 ^ width then Inr (le_bytes width val) else Inl RangeError)"

text \<open>
  Modelled from the spec: \<open>bytesConcat\<close> (in \<open>bytes\<close>, outside the files at hand), the
  concatenation of byte sequences.
\<close>

definition bytesConcat :: "bytes list \<Rightarrow> bytes" where
  "bytesConcat bss = concat bss"

text \<open>The remainder \<open>%\<close> of JavaScript takes the sign of the dividend.\<close>

definition js_rem :: "int \<Rightarrow> int \<Rightarrow> int" where
  "js_rem a b = sgn a * (\<bar>a\<bar> mod \<bar>b\<bar>)"

text \<open>
  \<^verbatim>\<open>signature[0] = 31 + ((signature[0] - 27) % 4)\<close> on a \<open>Uint8Array\<close>: a write to
  an empty array is dropped, and a written value is kept modulo 256.
\<close>

fun adjust_recovery_id :: "bytes \<Rightarrow> bytes" where
  "adjust_recovery_id [] = []"
| "adjust_recovery_id (b # bs) = word_of_int (31 + js_rem (uint b - 27) 4) # bs"

text \<open>The value \<open>signOnlyTransaction\<close> assigns to \<open>witness.lock\<close>.\<close>

definition signature_lock :: "bytes \<Rightarrow> error + bytes" where
  "signature_lock signature =
     bind_err (numToBytes (5 * 4 + length signature) 4) (\<lambda>f1.
     bind_err (numToBytes (4 * 4) 4) (\<lambda>f2.
     bind_err (numToBytes (5 * 4 + length signature) 4) (\<lambda>f3.
     bind_err (numToBytes (5 * 4 + length signature) 4) (\<lambda>f4.
     bind_err (numToBytes (length signature) 4) (\<lambda>f5.
       Inr (bytesConcat [f1, f2, f3, f4, f5, signature]))))))"

text \<open>
  Modelled from the spec: \<open>setWitnessArgsAt\<close> (a method of \<open>Transaction\<close>, outside the
  files at hand) writes the encoded witness into the slot at the index. An index past
  the end extends the array, as an assignment to a JavaScript array does, the slots in
  between holding empty byte sequences.
\<close>

definition setWitnessArgsAt :: "signer_env \<Rightarrow> Transaction \<Rightarrow> nat \<Rightarrow> WitnessArgs \<Rightarrow> Transaction" where
  "setWitnessArgsAt env tx i witness =
     tx\<lparr>witnesses :=
          (witnesses tx @ replicate (Suc i - length (witnesses tx)) [])
            [i := WitnessArgs_toBytes env witness]\<rparr>"


definition signOnlyTransaction :: "signer_env \<Rightarrow> world \<Rightarrow> nat \<Rightarrow> (error + nat) \<times> world" where
  "signOnlyTransaction env w txLike =
     (case Transaction_from w txLike of
        (Inl e, w1) \<Rightarrow> (Inl e, w1)
      | (Inr tx, w1) \<Rightarrow>
     (case getRecommendedAddressObj env of
        Inl e \<Rightarrow> (Inl e, w1)
      | Inr addr \<Rightarrow>
     (case getSignHashInfo env (heap w1 ! tx) (script addr) of
        Inl e \<Rightarrow> (Inl e, w1)
      | Inr None \<Rightarrow> (Inr tx, w1)
      | Inr (Some info) \<Rightarrow>
     (let text = ''CKB (Bitcoin Layer) transaction: '' @ message info;
          w2 = w1\<lparr>signRequests := signRequests w1 @ [text]\<rparr>
      in
     (case bind_err (signMessageRaw env text) (bytesFrom_base64 env) of
        Inl e \<Rightarrow> (Inl e, w2)
      | Inr sig \<Rightarrow>
     (let signature = adjust_recovery_id sig
      in
     (case WitnessArgs_fromBytes env (nth_opt (witnesses (heap w2 ! tx)) (position info)) of
        Inl e \<Rightarrow> (Inl e, w2)
      | Inr witness \<Rightarrow>
     (case signature_lock signature of
        Inl e \<Rightarrow> (Inl e, w2)
      | Inr lock_bytes \<Rightarrow>
          (Inr tx,
           w2\<lparr>heap := (heap w2)
                 [tx := setWitnessArgsAt env (heap w2 ! tx) (position info)
                          (witness\<lparr>lock := Some lock_bytes\<rparr>)]\<rparr>)))))))))"

section \<open>Concrete instances\<close>

text \<open>
  The theorems are evaluated on these: a signer whose wallet returns a one-byte
  signature, whose sighash lookup finds an input of its own whenever the transaction has
  a witness, whose witness codec keeps the lock alone and whose placeholder is a lock of
  zero bytes at the signer's position; the same signer with a wallet that returns 64
  bytes, and with one that returns 65; a transaction with two witnesses, held as a \<open>Transaction\<close> object and as a
  plain value; a hash library that keeps the bytes it absorbed; transformers that
  hex-encode the number 10 only; a node that answers with a given body at once, and one
  that answers after a latency in milliseconds, so that the abort signal fires first
  when its delay is not longer.
\<close>

definition sample_script :: Script where
  "sample_script = \<lparr>codeHash = replicate 32 0, hashType = HashType_Type, args = [4, 0]\<rparr>"

definition sample_tx :: Transaction where
  "sample_tx =
     \<lparr>version = 0, cellDeps = [], headerDeps = [],
      inputs = [\<lparr>previousOutput = \<lparr>txHash = replicate 32 1, index = 0\<rparr>, since = 0\<rparr>],
      outputs = [\<lparr>capacity = 100, lockScript = sample_script, typeScript = None\<rparr>],
      outputsData = [[]],
      witnesses = [[7], [9]]\<rparr>"

definition sample_signer_env :: signer_env where
  "sample_signer_env =
     \<lparr>getRecommendedAddressObj = Inr \<lparr>script = sample_script, prefix = ''ckt''\<rparr>,
      getSignHashInfo = (\<lambda>t s. if witnesses t = [] then Inr None
                                else Inr (Some \<lparr>message = ''0xab'', position = 1\<rparr>)),
      signMessageRaw = (\<lambda>text. Inr ''Gw==''),
      bytesFrom_base64 = (\<lambda>s. Inr [27]),
      WitnessArgs_fromBytes = (\<lambda>b. Inr \<lparr>lock = None, inputType = b, outputType = None\<rparr>),
      WitnessArgs_toBytes = (\<lambda>wa. case lock wa of None \<Rightarrow> [] | Some l \<Rightarrow> l),
      addCellDepsOfKnownScripts = (\<lambda>t k. Inr t),
      prepareSighashAllWitness =
        (\<lambda>t s n. Inr (t\<lparr>witnesses := (witnesses t)[1 := replicate n 0]\<rparr>))\<rparr>"



definition sample_world :: world where
  "sample_world = \<lparr>heap = [sample_tx], instances = {0}, signRequests = []\<rparr>"


definition sample_hash_env :: "(bytes, bytes) hash_env" where
  "sample_hash_env =
     \<lparr>blake2b_create = (\<lambda>n p. []),
      blake2b_update = (\<lambda>h bs. h @ bs),
      blake2b_digest_hex = (\<lambda>h. replicate (length h) CHR ''0''),
      bytesFrom = Inr,
      bytesFrom_utf8 = (\<lambda>s. []),
      CKB_BLAKE2B_PERSONAL = ''ckb-default-hash''\<rparr>"

definition sample_transformers :: JsonRpcTransformers where
  "sample_transformers =
     \<lparr>indexerSearchKeyFrom = Inr,
      findCellsResponseTo = Inr,
      numToHex = (\<lambda>v. if v = JNum 10 then Inr (JStr ''0xa'')
                       else Inl (Rejected ''unsupported''))\<rparr>"

definition sample_client :: ClientJsonRpc where
  "sample_client = new_ClientJsonRpc ''http://node'' None"

definition sample_request :: JsonRpcPayload where
  "sample_request = \<lparr>rpc_id = 3, rpc_method = ''get_cells'', params = [], jsonrpc = ''2.0''\<rparr>"

definition respond_with :: "jsval \<Rightarrow> transport" where
  "respond_with res = (\<lambda>u t p. Inr (Inr res))"


section \<open>The JSON-RPC client: responses\<close>

lemma get_prop_total:
  "get_prop res k = Inr v \<Longrightarrow> \<exists>w. get_prop res k' = Inr w"
  by (cases res) auto

text \<open>
  C4. A response whose \<open>id\<close> differs from the \<open>id\<close> of the payload that was sent
  makes \<open>send\<close> fail with the id-mismatch error, whatever the response's \<open>result\<close>
  and \<open>error\<close> members are; no result is returned. (\<open>send\<close> has no other effect: the
  class holds no cache.) An \<open>id\<close> that is missing reads as \<open>undefined\<close> and differs too.
\<close>

theorem send_id_mismatch:
  assumes "fetch (url c) (timeout c) payload = Inr (Inr res)"
    and "get_prop res ''id'' = Inr res_id"
    and "res_id \<noteq> JNum (rpc_id payload)"
  shows "send fetch c payload = Inl (IdMismatched res_id (rpc_id payload))
         \<and> (\<forall>v. send fetch c payload \<noteq> Inr v)"
  using assms by (simp add: send_def bind_err_def)

theorem send_id_mismatch_witness:
  "send (\<lambda>u t p. Inr (Inr (JObj [(''id'', JNum 7), (''result'', JStr ''0x1'')])))
        sample_client sample_request
   = Inl (IdMismatched (JNum 7) 3)"
proof -
  let ?res = "JObj [(''id'', JNum 7), (''result'', JStr ''0x1'')]"
  let ?fetch = "\<lambda>(u::string) (t::nat) (p::JsonRpcPayload). (Inr (Inr ?res) :: error + (error + jsval))"
  have h1: "?fetch (url sample_client) (timeout sample_client) sample_request = Inr (Inr ?res)"
    by simp
  have h2: "get_prop ?res ''id'' = Inr (JNum 7)" by simp
  have h3: "JNum 7 \<noteq> JNum (rpc_id sample_request)" by (simp add: sample_request_def)
  from send_id_mismatch [OF h1 h2 h3] show ?thesis by (simp add: sample_request_def)
qed

lemma truthy_iff:
  "truthy v \<longleftrightarrow>
     \<not> (v = JUndefined \<or> v = JNull \<or> v = JBool False \<or> v = JNum 0 \<or> v = JStr [])"
  by (cases v) auto

text \<open>
  C6. For a response whose \<open>id\<close> matches: when the \<open>error\<close> member is truthy, which is
  what the guard \<^verbatim>\<open>if (res.error)\<close> tests, \<open>send\<close> fails and the failure is that
  member itself, thrown as it was parsed and not wrapped in an error type, so that
  whatever code and message the node put in it are carried unchanged; when the member
  is absent or falsy (\<open>undefined\<close>, \<open>null\<close>, \<open>false\<close>, 0 or the empty string), \<open>send\<close>
  returns the \<open>result\<close> member.
\<close>

theorem send_error_or_result:
  assumes "fetch (url c) (timeout c) payload = Inr (Inr res)"
    and "get_prop res ''id'' = Inr (JNum (rpc_id payload))"
  shows "\<exists>res_error res_result.
           get_prop res ''error'' = Inr res_error \<and>
           get_prop res ''result'' = Inr res_result \<and>
           send fetch c payload =
             (if res_error = JUndefined \<or> res_error = JNull \<or> res_error = JBool False \<or>
                 res_error = JNum 0 \<or> res_error = JStr []
              then Inr res_result else Inl (Thrown res_error))"
proof -
  from assms(2) obtain e where e: "get_prop res ''error'' = Inr e"
    using get_prop_total by blast
  from assms(2) obtain r where r: "get_prop res ''result'' = Inr r"
    using get_prop_total by blast
  have "send fetch c payload = (if truthy e then Inl (Thrown e) else Inr r)"
    using assms e r by (simp add: send_def bind_err_def)
  then have "send fetch c payload =
             (if e = JUndefined \<or> e = JNull \<or> e = JBool False \<or> e = JNum 0 \<or> e = JStr []
              then Inr r else Inl (Thrown e))"
    unfolding truthy_iff by simp
  with e r show ?thesis by blast
qed

theorem send_error_or_result_witness:
  "send (\<lambda>u t p. Inr (Inr (JObj [(''id'', JNum 3),
            (''error'', JObj [(''code'', JNum (- 32601)), (''message'', JStr ''Method not found'')])])))
        sample_client sample_request
   = Inl (Thrown (JObj [(''code'', JNum (- 32601)), (''message'', JStr ''Method not found'')]))"
proof -
  let ?err = "JObj [(''code'', JNum (- 32601)), (''message'', JStr ''Method not found'')]"
  let ?res = "JObj [(''id'', JNum 3), (''error'', ?err)]"
  let ?fetch = "\<lambda>(u::string) (t::nat) (p::JsonRpcPayload). (Inr (Inr ?res) :: error + (error + jsval))"
  have h1: "?fetch (url sample_client) (timeout sample_client) sample_request = Inr (Inr ?res)"
    by simp
  have h2: "get_prop ?res ''id'' = Inr (JNum (rpc_id sample_request))"
    by (simp add: sample_request_def)
  from send_error_or_result [OF h1 h2] show ?thesis by simp
qed

text \<open>
  Against C6 as stated: a response with a matching \<open>id\<close> and an \<open>error\<close> member equal
  to 0 is returned as a success, and an \<open>error\<close> member that is a bare string is thrown
  as that string, which has neither a code nor a message.
\<close>

theorem send_error_raw_counterexample:
  "send (respond_with (JObj [(''id'', JNum 3), (''error'', JNum 0), (''result'', JStr ''0x1'')]))
        sample_client sample_request
   = Inr (JStr ''0x1'') \<and>
   send (respond_with (JObj [(''id'', JNum 3), (''error'', JStr ''boom'')]))
        sample_client sample_request
   = Inl (Thrown (JStr ''boom''))"
  by (simp add: send_def bind_err_def respond_with_def sample_request_def)




section \<open>The JSON-RPC client: requests\<close>

lemma Promise_all_length:
  "Promise_all ps = Inr vs \<Longrightarrow> length vs = length ps"
  by (induction ps arbitrary: vs) (auto split: sum.splits)

lemma Promise_all_nth:
  "Promise_all ps = Inr vs \<Longrightarrow> i < length ps \<Longrightarrow> ps ! i = Inr (vs ! i)"
proof (induction ps arbitrary: vs i)
  case Nil then show ?case by simp
next
  case (Cons p ps)
  then show ?case by (cases i) (auto split: sum.splits)
qed

lemma Promise_all_Inl:
  "Promise_all ps = Inl e \<Longrightarrow> \<exists>i < length ps. ps ! i = Inl e"
proof (induction ps)
  case Nil then show ?case by simp
next
  case (Cons p ps)
  show ?case
  proof (cases p)
    case (Inl e')
    with Cons.prems show ?thesis by auto
  next
    case (Inr v)
    with Cons.prems have "Promise_all ps = Inl e" by (auto split: sum.splits)
    from Cons.IH [OF this] obtain i where "i < length ps" and "ps ! i = Inl e" by blast
    then have "Suc i < length (p # ps) \<and> (p # ps) ! Suc i = Inl e" by simp
    then show ?thesis by blast
  qed
qed

lemma length_padded_req:
  "length (padded_req inT req) = max (length req) (length inT)"
  by (auto simp: padded_req_def)

lemma padded_req_nth:
  "i < length (padded_req inT req) \<Longrightarrow> padded_req inT req ! i = arg_at req i"
  by (auto simp: padded_req_def arg_at_def nth_append)

lemma sender_params_alt:
  "sender_params inT req =
     Promise_all (map (\<lambda>i. transform (arg_at req i) (at_index inT i))
                   [0 ..< max (length req) (length inT)])"
proof -
  let ?xs = "padded_req inT req"
  have "map (\<lambda>(v, i). transform v (at_index inT i)) (zip ?xs [0 ..< length ?xs])
        = map (\<lambda>i. transform (arg_at req i) (at_index inT i)) [0 ..< length ?xs]"
    by (rule nth_equalityI) (simp_all add: padded_req_nth)
  then show ?thesis
    by (simp add: sender_params_def length_padded_req)
qed

lemma sender_params_length:
  "sender_params inT req = Inr ps \<Longrightarrow> length ps = max (length req) (length inT)"
  by (auto simp: sender_params_alt dest!: Promise_all_length)

lemma sender_params_nth:
  assumes "sender_params inT req = Inr ps" and "i < length ps"
  shows "case at_index inT i of
           None \<Rightarrow> ps ! i = arg_at req i
         | Some f \<Rightarrow> f (arg_at req i) = Inr (ps ! i)"
proof -
  have len: "length ps = max (length req) (length inT)"
    using assms(1) by (rule sender_params_length)
  have "map (\<lambda>i. transform (arg_at req i) (at_index inT i))
          [0 ..< max (length req) (length inT)] ! i = Inr (ps ! i)"
    using Promise_all_nth [OF assms(1) [unfolded sender_params_alt], of i] assms(2) len by simp
  then have "transform (arg_at req i) (at_index inT i) = Inr (ps ! i)"
    using assms(2) len by simp
  then show ?thesis
    by (auto simp: transform_def split: option.splits)
qed

lemma sender_params_Inl:
  assumes "sender_params inT req = Inl e"
  shows "\<exists>i f. i < max (length req) (length inT) \<and> at_index inT i = Some f \<and>
               f (arg_at req i) = Inl e"
proof -
  from Promise_all_Inl [OF assms [unfolded sender_params_alt]]
  obtain i where i: "i < max (length req) (length inT)"
    and "transform (arg_at req i) (at_index inT i) = Inl e"
    by auto
  then show ?thesis
    by (auto simp: transform_def split: option.splits)
qed

lemma Math_round_range:
  "0 \<le> x \<Longrightarrow> x \<le> 10000 \<Longrightarrow> 0 \<le> Math_round x \<and> Math_round x \<le> 10000"
  unfolding Math_round_def by (simp add: le_floor_iff floor_le_iff)

lemma Promise_all_Inr: "Promise_all (map Inr vs) = Inr vs"
  by (induction vs) auto

lemma map_arg_at_drop:
  "map (arg_at req) [k ..< max (length req) k] = drop k req"
  by (rule nth_equalityI) (auto simp: arg_at_def)

lemma upt_3_split: "3 \<le> n \<Longrightarrow> [0 ..< n] = [0, 1, 2] @ [3 ..< n]"
  by (simp add: upt_rec numeral_3_eq_3 numeral_2_eq_2)

lemma sender_params_3:
  assumes len: "length inT = 3"
  shows "sender_params inT req =
     Promise_all ([transform (arg_at req 0) (inT ! 0),
                   transform (arg_at req 1) (inT ! 1),
                   transform (arg_at req 2) (inT ! 2)] @ map Inr (drop 3 req))"
proof -
  let ?n = "max (length req) 3"
  have "map (\<lambda>i. transform (arg_at req i) (at_index inT i)) [3 ..< ?n]
        = map (\<lambda>i. Inr (arg_at req i)) [3 ..< ?n]"
    by (rule map_cong) (auto simp: transform_def at_index_def len)
  also have "\<dots> = map Inr (map (arg_at req) [3 ..< ?n])" by simp
  finally have rest: "map (\<lambda>i. transform (arg_at req i) (at_index inT i)) [3 ..< ?n]
              = map Inr (drop 3 req)"
    by (simp only: map_arg_at_drop)
  have split: "[0 ..< ?n] = [0, 1, 2] @ [3 ..< ?n]" by (rule upt_3_split) simp
  have "sender_params inT req =
     Promise_all (map (\<lambda>i. transform (arg_at req i) (at_index inT i)) ([0, 1, 2] @ [3 ..< ?n]))"
    unfolding sender_params_alt len split [symmetric] ..
  also have "\<dots> = Promise_all (map (\<lambda>i. transform (arg_at req i) (at_index inT i)) [0, 1, 2]
                  @ map Inr (drop 3 req))"
    unfolding map_append rest ..
  finally show ?thesis
    by (simp add: at_index_def len)
qed

lemma findCells_params:
  assumes key: "indexerSearchKeyFrom T (arg_at req 0) = Inr k"
    and lim: "numToHex T (nullish (arg_at req 2) (JNum 10)) = Inr h"
  shows "sender_params
       [Some (indexerSearchKeyFrom T),
        Some (\<lambda>order. Inr (nullish order (JStr ''asc''))),
        Some (\<lambda>limit. numToHex T (nullish limit (JNum 10)))] req
     = Inr ([k, nullish (arg_at req 1) (JStr ''asc''), h] @ drop 3 req)"
  using key lim
  by (subst sender_params_3) (simp_all add: transform_def Promise_all_Inr)

text \<open>
  C9. The payload \<open>buildPayload\<close> makes has the four members of the wire format: an
  integer \<open>id\<close>, between 0 and 10000, \<open>jsonrpc\<close> equal to \<open>2.0\<close>, the method name and
  the parameter array it was given. A sender made by \<open>buildSender\<close> sends nothing when
  an input transformer fails on its argument. When every input transformer succeeds it
  sends one such payload, with the method of the sender; the parameter array has as many
  entries as the longer of the argument list and the transformer list, and entry \<open>i\<close> is
  the result of the transformer at \<open>i\<close> on the argument at \<open>i\<close> (\<open>undefined\<close> when the
  argument is not supplied), or that argument itself where there is no transformer.
\<close>

theorem buildSender_payload_wellformed:
  assumes "0 \<le> scaled" and "scaled \<le> 10000"
  shows "buildPayload scaled m ps0 =
           \<lparr>rpc_id = \<lfloor>scaled + 1 / 2\<rfloor>, rpc_method = m, params = ps0, jsonrpc = ''2.0''\<rparr> \<and>
         0 \<le> \<lfloor>scaled + 1 / 2\<rfloor> \<and> \<lfloor>scaled + 1 / 2\<rfloor> \<le> 10000 \<and>
         ((\<exists>i f e. i < max (length req) (length inT) \<and> at_index inT i = Some f \<and>
                    f (arg_at req i) = Inl e) \<longrightarrow>
            fst (buildSender fetch c scaled m inT outT req) = []) \<and>
         ((\<forall>i f. i < max (length req) (length inT) \<and> at_index inT i = Some f \<longrightarrow>
                    (\<exists>v. f (arg_at req i) = Inr v)) \<longrightarrow>
            (\<exists>ps. fst (buildSender fetch c scaled m inT outT req) =
                     [\<lparr>rpc_id = \<lfloor>scaled + 1 / 2\<rfloor>, rpc_method = m, params = ps,
                       jsonrpc = ''2.0''\<rparr>] \<and>
                  length ps = max (length req) (length inT) \<and>
                  (\<forall>i < length ps.
                     case at_index inT i of
                       None \<Rightarrow> ps ! i = arg_at req i
                     | Some f \<Rightarrow> f (arg_at req i) = Inr (ps ! i))))"
  unfolding Math_round_def [symmetric]
proof (intro conjI impI)
  show "buildPayload scaled m ps0 =
           \<lparr>rpc_id = Math_round scaled, rpc_method = m, params = ps0, jsonrpc = ''2.0''\<rparr>"
    by (simp add: buildPayload_def)
  show "0 \<le> Math_round scaled" and "Math_round scaled \<le> 10000"
    using Math_round_range [OF assms] by simp_all
next
  assume "\<exists>i f e. i < max (length req) (length inT) \<and> at_index inT i = Some f \<and>
                    f (arg_at req i) = Inl e"
  then obtain i f e where i: "i < max (length req) (length inT)"
    and f: "at_index inT i = Some f" and e: "f (arg_at req i) = Inl e"
    by blast
  have "\<exists>e'. sender_params inT req = Inl e'"
  proof (cases "sender_params inT req")
    case (Inl e')
    then show ?thesis by blast
  next
    case (Inr ps)
    from sender_params_length [OF Inr] i have "i < length ps" by simp
    from sender_params_nth [OF Inr this] f e show ?thesis by simp
  qed
  then show "fst (buildSender fetch c scaled m inT outT req) = []"
    by (auto simp: buildSender_def)
next
  assume ok: "\<forall>i f. i < max (length req) (length inT) \<and> at_index inT i = Some f \<longrightarrow>
                    (\<exists>v. f (arg_at req i) = Inr v)"
  have "\<exists>ps. sender_params inT req = Inr ps"
  proof (cases "sender_params inT req")
    case (Inr ps)
    then show ?thesis by blast
  next
    case (Inl e)
    from sender_params_Inl [OF Inl] ok show ?thesis by fastforce
  qed
  then obtain ps where ps: "sender_params inT req = Inr ps" by blast
  have sent: "fst (buildSender fetch c scaled m inT outT req) =
                [\<lparr>rpc_id = Math_round scaled, rpc_method = m, params = ps, jsonrpc = ''2.0''\<rparr>]"
    by (simp add: buildSender_def ps Let_def buildPayload_def)
  have entries: "\<forall>i < length ps.
                     case at_index inT i of
                       None \<Rightarrow> ps ! i = arg_at req i
                     | Some f \<Rightarrow> f (arg_at req i) = Inr (ps ! i)"
    using sender_params_nth [OF ps] by blast
  from sent sender_params_length [OF ps] entries
  show "\<exists>ps. fst (buildSender fetch c scaled m inT outT req) =
                     [\<lparr>rpc_id = Math_round scaled, rpc_method = m, params = ps,
                       jsonrpc = ''2.0''\<rparr>] \<and>
                  length ps = max (length req) (length inT) \<and>
                  (\<forall>i < length ps.
                     case at_index inT i of
                       None \<Rightarrow> ps ! i = arg_at req i
                     | Some f \<Rightarrow> f (arg_at req i) = Inr (ps ! i))"
    by blast
qed

theorem buildSender_payload_wellformed_witness:
  "fst (buildSender (respond_with JNull) sample_client (7 / 2) ''get_transaction''
          [Some (\<lambda>v. Inr (JArr [v, v])), None] None [JStr ''0xab''])
   = [\<lparr>rpc_id = 4, rpc_method = ''get_transaction'',
        params = [JArr [JStr ''0xab'', JStr ''0xab''], JUndefined], jsonrpc = ''2.0''\<rparr>]"
proof -
  let ?inT = "[Some (\<lambda>v. Inr (JArr [v, v])), None] :: (jsval \<Rightarrow> error + jsval) option list"
  let ?req = "[JStr ''0xab'']"
  have s1: "(0::real) \<le> 7 / 2" and s2: "(7 / 2 :: real) \<le> 10000" by simp_all
  have ok: "\<forall>i f. i < max (length ?req) (length ?inT) \<and> at_index ?inT i = Some f \<longrightarrow>
                    (\<exists>v. f (arg_at ?req i) = Inr v)"
    by (auto simp: at_index_def less_Suc_eq)
  from buildSender_payload_wellformed [OF s1 s2, where req = ?req and inT = ?inT
      and fetch = "respond_with JNull" and c = sample_client and m = "''get_transaction''"
      and outT = None] ok
  obtain ps where sent: "fst (buildSender (respond_with JNull) sample_client (7 / 2)
          ''get_transaction'' ?inT None ?req) =
          [\<lparr>rpc_id = \<lfloor>7 / 2 + 1 / 2 :: real\<rfloor>, rpc_method = ''get_transaction'', params = ps,
            jsonrpc = ''2.0''\<rparr>]"
    and len: "length ps = max (length ?req) (length ?inT)"
    and entries: "\<forall>i < length ps.
                     case at_index ?inT i of
                       None \<Rightarrow> ps ! i = arg_at ?req i
                     | Some f \<Rightarrow> f (arg_at ?req i) = Inr (ps ! i)"
    by blast
  from len have l2: "length ps = 2" by simp
  have i0: "0 < length ps" and i1: "1 < length ps" using l2 by simp_all
  from entries [rule_format, OF i0]
  have p0: "ps ! 0 = JArr [JStr ''0xab'', JStr ''0xab'']"
    by (simp add: at_index_def arg_at_def)
  from entries [rule_format, OF i1]
  have p1: "ps ! 1 = JUndefined"
    by (simp add: at_index_def arg_at_def)
  have "ps = [ps ! 0, ps ! 1]"
    using l2 by (auto simp: list_eq_iff_nth_eq less_Suc_eq numeral_2_eq_2)
  with p0 p1 have "ps = [JArr [JStr ''0xab'', JStr ''0xab''], JUndefined]" by simp
  with sent show ?thesis by simp
qed

text \<open>
  C10. When the key and the limit pass their transformers, \<open>findCellsPagedNoCache\<close> sends
  one \<open>get_cells\<close> request whose parameters are the transformed key, the order and the
  hex-encoded limit, followed by the arguments after the third. An omitted order is sent
  as \<open>asc\<close> and an omitted limit as the encoding of 10; an order and a limit that are
  given (neither \<open>undefined\<close> nor \<open>null\<close>) are sent as they are, the limit hex-encoded.
\<close>

theorem findCellsPagedNoCache_defaults:
  assumes key: "indexerSearchKeyFrom T (arg_at req 0) = Inr k"
    and lim: "numToHex T (nullish (arg_at req 2) (JNum 10)) = Inr h"
  shows "\<exists>p. fst (findCellsPagedNoCache T fetch c scaled req) = [p] \<and>
          rpc_method p = ''get_cells'' \<and>
          params p = [k, nullish (arg_at req 1) (JStr ''asc''), h] @ drop 3 req \<and>
          (length req \<le> 1 \<longrightarrow> params p ! 1 = JStr ''asc'') \<and>
          (length req \<le> 2 \<longrightarrow> numToHex T (JNum 10) = Inr (params p ! 2)) \<and>
          (1 < length req \<and> req ! 1 \<noteq> JUndefined \<and> req ! 1 \<noteq> JNull \<longrightarrow>
             params p ! 1 = req ! 1) \<and>
          (2 < length req \<and> req ! 2 \<noteq> JUndefined \<and> req ! 2 \<noteq> JNull \<longrightarrow>
             numToHex T (req ! 2) = Inr (params p ! 2))"
proof -
  let ?ps = "[k, nullish (arg_at req 1) (JStr ''asc''), h] @ drop 3 req"
  let ?p = "buildPayload scaled ''get_cells'' ?ps"
  have sent: "fst (findCellsPagedNoCache T fetch c scaled req) = [?p]"
    by (simp add: findCellsPagedNoCache_def buildSender_def Let_def findCells_params [OF key lim])
  have m: "rpc_method ?p = ''get_cells''" and ps: "params ?p = ?ps"
    by (simp_all add: buildPayload_def)
  have o1: "length req \<le> 1 \<longrightarrow> params ?p ! 1 = JStr ''asc''"
    by (simp add: buildPayload_def arg_at_def nullish_def)
  have l1: "length req \<le> 2 \<longrightarrow> numToHex T (JNum 10) = Inr (params ?p ! 2)"
    using lim by (auto simp add: buildPayload_def arg_at_def nullish_def)
  have o2: "1 < length req \<and> req ! 1 \<noteq> JUndefined \<and> req ! 1 \<noteq> JNull \<longrightarrow>
             params ?p ! 1 = req ! 1"
    by (simp add: buildPayload_def arg_at_def nullish_def)
  have l2: "2 < length req \<and> req ! 2 \<noteq> JUndefined \<and> req ! 2 \<noteq> JNull \<longrightarrow>
             numToHex T (req ! 2) = Inr (params ?p ! 2)"
    using lim by (auto simp add: buildPayload_def arg_at_def nullish_def)
  show ?thesis
    using sent m ps o1 l1 o2 l2 by blast
qed

theorem findCellsPagedNoCache_defaults_witness:
  "fst (findCellsPagedNoCache sample_transformers (respond_with JNull)
          sample_client 5000 [JObj []])
   = [\<lparr>rpc_id = 5000, rpc_method = ''get_cells'',
        params = [JObj [], JStr ''asc'', JStr ''0xa''], jsonrpc = ''2.0''\<rparr>]"
proof -
  let ?req = "[JObj []]"
  have k: "indexerSearchKeyFrom sample_transformers (arg_at ?req 0) = Inr (JObj [])"
    by (simp add: sample_transformers_def arg_at_def)
  have l: "numToHex sample_transformers (nullish (arg_at ?req 2) (JNum 10)) = Inr (JStr ''0xa'')"
    by (simp add: sample_transformers_def arg_at_def nullish_def)
  from findCellsPagedNoCache_defaults [OF k l, of "respond_with JNull" sample_client 5000]
  obtain p where p: "fst (findCellsPagedNoCache sample_transformers
          (respond_with JNull) sample_client 5000 ?req) = [p]"
    and m: "rpc_method p = ''get_cells''"
    and ps: "params p = [JObj [], nullish (arg_at ?req 1) (JStr ''asc''), JStr ''0xa''] @ drop 3 ?req"
    by blast
  have "fst (findCellsPagedNoCache sample_transformers
          (respond_with JNull) sample_client 5000 ?req)
        = [buildPayload 5000 ''get_cells'' (params p)]"
    using p by (auto simp: findCellsPagedNoCache_def buildSender_def Let_def buildPayload_def
        split: sum.splits)
  then show ?thesis
    by (simp add: ps buildPayload_def Math_round_def arg_at_def nullish_def)
qed

section \<open>The hasher\<close>

lemma ckbHash_two:
  "ckbHash env [a, b] =
     bind_err (Hasher_update env (new_Hasher env None None) a) (\<lambda>h1.
     bind_err (Hasher_update env h1 b) (\<lambda>h2. Inr (Hasher_digest env h2)))"
  by (simp add: ckbHash_def bind_err_def split: sum.splits)

lemma ckbHash_two_bytes:
  assumes "bytesFrom env a = Inr x" and "bytesFrom env b = Inr y"
  shows "ckbHash env [a, b] =
     Inr (''0x'' @ blake2b_digest_hex env
        (blake2b_update env (blake2b_update env (hasher (new_Hasher env None None)) x) y))"
  using assms by (simp add: ckbHash_two Hasher_update_def Hasher_digest_def bind_err_def)

lemma ckbHash_one_bytes:
  assumes "bytesFrom env c = Inr z"
  shows "ckbHash env [c] =
     Inr (''0x'' @ blake2b_digest_hex env
        (blake2b_update env (hasher (new_Hasher env None None)) z))"
  using assms by (simp add: ckbHash_def Hasher_update_def Hasher_digest_def bind_err_def)

text \<open>
  C3. \<open>ckbHash(a, b)\<close> is the digest of a fresh hasher updated with \<open>a\<close> and then with
  \<open>b\<close>, and it is produced whenever both inputs read as bytes. When the hash library
  is a streaming hash, it is also \<open>ckbHash(c)\<close> for every \<open>c\<close> whose bytes are those of
  \<open>a\<close> followed by those of \<open>b\<close>.
\<close>

theorem ckbHash_split:
  "ckbHash env [a, b] =
     bind_err (Hasher_update env (new_Hasher env None None) a) (\<lambda>h1.
     bind_err (Hasher_update env h1 b) (\<lambda>h2. Inr (Hasher_digest env h2))) \<and>
   (bytesFrom env a = Inr x \<and> bytesFrom env b = Inr y \<longrightarrow>
      (\<exists>d. ckbHash env [a, b] = Inr d) \<and>
      (streaming env \<and> bytesFrom env c = Inr (x @ y) \<longrightarrow>
         ckbHash env [a, b] = ckbHash env [c]))"
proof (intro conjI impI)
  show "ckbHash env [a, b] =
     bind_err (Hasher_update env (new_Hasher env None None) a) (\<lambda>h1.
     bind_err (Hasher_update env h1 b) (\<lambda>h2. Inr (Hasher_digest env h2)))"
    by (rule ckbHash_two)
next
  assume "bytesFrom env a = Inr x \<and> bytesFrom env b = Inr y"
  then show "\<exists>d. ckbHash env [a, b] = Inr d"
    by (simp add: ckbHash_two_bytes)
next
  assume ab: "bytesFrom env a = Inr x \<and> bytesFrom env b = Inr y"
    and sc: "streaming env \<and> bytesFrom env c = Inr (x @ y)"
  from sc have "blake2b_digest_hex env
        (blake2b_update env (blake2b_update env (hasher (new_Hasher env None None)) x) y)
      = blake2b_digest_hex env (blake2b_update env (hasher (new_Hasher env None None)) (x @ y))"
    unfolding streaming_def by blast
  then show "ckbHash env [a, b] = ckbHash env [c]"
    using ab sc by (simp add: ckbHash_two_bytes ckbHash_one_bytes)
qed

theorem ckbHash_split_witness:
  "streaming sample_hash_env \<and>
   ckbHash sample_hash_env [[1, 2], [3]] = Inr ''0x000'' \<and>
   ckbHash sample_hash_env [[1, 2], [3]] = ckbHash sample_hash_env [[1, 2, 3]]"
proof -
  have s: "streaming sample_hash_env"
    by (simp add: streaming_def sample_hash_env_def)
  have v: "ckbHash sample_hash_env [[1, 2], [3]] = Inr ''0x000''"
    by (simp add: ckbHash_def sample_hash_env_def Hasher_update_def Hasher_digest_def
        new_Hasher_def bind_err_def)
  have "bytesFrom sample_hash_env [1, 2] = Inr [1, 2]"
    and "bytesFrom sample_hash_env [3] = Inr [3]"
    and "bytesFrom sample_hash_env [1, 2, 3] = Inr ([1, 2] @ [3])"
    by (simp_all add: sample_hash_env_def)
  with s ckbHash_split [of sample_hash_env "[1, 2]" "[3]" "[1, 2]" "[3]" "[1, 2, 3]"]
  have "ckbHash sample_hash_env [[1, 2], [3]] = ckbHash sample_hash_env [[1, 2, 3]]"
    by blast
  with s v show ?thesis by simp
qed

section \<open>The Bitcoin signer\<close>






lemma Transaction_from_instance:
  assumes "a < length (heap w)" and "a \<in> instances w"
  shows "Transaction_from w a = (Inr a, w)"
  using assms by (simp add: Transaction_from_def)

lemma Transaction_from_plain:
  assumes "a < length (heap w)" and "a \<notin> instances w"
  shows "Transaction_from w a =
           (Inr (length (heap w)),
            w\<lparr>heap := heap w @ [heap w ! a],
              instances := insert (length (heap w)) (instances w)\<rparr>)"
  using assms by (simp add: Transaction_from_def)












lemma four_Suc: "(4::nat) = Suc (Suc (Suc (Suc 0)))"
  by simp

lemma numToBytes_4:
  "numToBytes n 4 =
     (if n < 4294967296
      then Inr [of_nat (n mod 256), of_nat (n div 256 mod 256),
                of_nat (n div 256 div 256 mod 256),
                of_nat (n div 256 div 256 div 256 mod 256)]
      else Inl RangeError)"
proof -
  have "le_bytes 4 n = le_bytes (Suc (Suc (Suc (Suc 0)))) n"
    by (simp only: four_Suc)
  then show ?thesis by (simp add: numToBytes_def)
qed

lemma sample_adjust: "adjust_recovery_id [27] = [31]"
  by (simp add: js_rem_def)

lemma sample_lock:
  "signature_lock [31] =
     Inr [21, 0, 0, 0, 16, 0, 0, 0, 21, 0, 0, 0, 21, 0, 0, 0, 1, 0, 0, 0, 31]"
  by (simp add: signature_lock_def numToBytes_4 bind_err_def bytesConcat_def)

lemma sample_run:
  "signOnlyTransaction sample_signer_env sample_world 0 =
     (Inr 0,
      \<lparr>heap = [sample_tx\<lparr>witnesses :=
                 [[7], [21, 0, 0, 0, 16, 0, 0, 0, 21, 0, 0, 0, 21, 0, 0, 0, 1, 0, 0, 0, 31]]\<rparr>],
       instances = {0},
       signRequests = [''CKB (Bitcoin Layer) transaction: 0xab'']\<rparr>)"
  by (simp add: signOnlyTransaction_def Transaction_from_def sample_world_def
      sample_signer_env_def sample_tx_def bind_err_def nth_opt_def setWitnessArgsAt_def
      sample_adjust sample_lock Let_def del: adjust_recovery_id.simps)


lemma sample_address:
  "getRecommendedAddressObj sample_signer_env = Inr \<lparr>script = sample_script, prefix = ''ckt''\<rparr>"
  by (simp add: sample_signer_env_def)





text \<open>
  C1. When the sighash lookup for the signer's recommended lock script finds nothing,
  \<open>signOnlyTransaction\<close> returns a transaction with the fields of the one it was
  given; no object that existed before is changed and nothing is handed to the wallet.
\<close>

theorem signOnlyTransaction_noop:
  assumes a: "a < length (heap w)"
    and addr: "getRecommendedAddressObj env = Inr addr"
    and info: "getSignHashInfo env (heap w ! a) (script addr) = Inr None"
  shows "\<exists>tx w'. signOnlyTransaction env w a = (Inr tx, w') \<and>
           tx < length (heap w') \<and>
           heap w' ! tx = heap w ! a \<and>
           (\<forall>b < length (heap w). heap w' ! b = heap w ! b) \<and>
           signRequests w' = signRequests w"
proof (cases "a \<in> instances w")
  case True
  have "signOnlyTransaction env w a = (Inr a, w)"
    using addr info by (simp add: signOnlyTransaction_def Transaction_from_instance [OF a True])
  then show ?thesis using a by simp
next
  case False
  let ?w1 = "w\<lparr>heap := heap w @ [heap w ! a],
                instances := insert (length (heap w)) (instances w)\<rparr>"
  have "signOnlyTransaction env w a = (Inr (length (heap w)), ?w1)"
    using addr info by (simp add: signOnlyTransaction_def Transaction_from_plain [OF a False])
  moreover have "heap ?w1 ! length (heap w) = heap w ! a" by simp
  moreover have "\<forall>b < length (heap w). heap ?w1 ! b = heap w ! b"
    by (simp add: nth_append)
  ultimately show ?thesis by simp
qed

theorem signOnlyTransaction_noop_witness:
  "\<exists>tx w'. signOnlyTransaction sample_signer_env
              \<lparr>heap = [sample_tx\<lparr>witnesses := []\<rparr>], instances = {0}, signRequests = []\<rparr> 0
              = (Inr tx, w') \<and>
           heap w' ! tx = sample_tx\<lparr>witnesses := []\<rparr> \<and>
           signRequests w' = []"
proof -
  let ?w = "\<lparr>heap = [sample_tx\<lparr>witnesses := []\<rparr>], instances = {0}, signRequests = []\<rparr>"
  have h1: "0 < length (heap ?w)" by simp
  have h3: "getSignHashInfo sample_signer_env (heap ?w ! 0)
              (script \<lparr>script = sample_script, prefix = ''ckt''\<rparr>) = Inr None"
    by (simp add: sample_signer_env_def)
  from signOnlyTransaction_noop [OF h1 sample_address h3] show ?thesis by auto
qed




text \<open>
  C8. A call of \<open>signOnlyTransaction\<close> hands the wallet at most one text, and that text
  is the fixed prefix \<open>CKB (Bitcoin Layer) transaction: \<close> followed by the message of
  the sighash info; it is never the message alone.
\<close>

theorem signing_text_prefixed:
  assumes res: "signOnlyTransaction env w a = (r, w')"
  shows "signRequests w' = signRequests w \<or>
     (\<exists>addr info.
        getRecommendedAddressObj env = Inr addr \<and>
        getSignHashInfo env (heap w ! a) (script addr) = Inr (Some info) \<and>
        signRequests w' =
          signRequests w @ [''CKB (Bitcoin Layer) transaction: '' @ message info] \<and>
        ''CKB (Bitcoin Layer) transaction: '' @ message info \<noteq> message info)"
proof (cases "a < length (heap w)")
  case False
  then show ?thesis
    using res by (simp add: signOnlyTransaction_def Transaction_from_def)
next
  case a: True
  show ?thesis
  proof (cases "a \<in> instances w")
    case True
    show ?thesis
      using res
      by (auto simp: signOnlyTransaction_def Transaction_from_instance [OF a True] Let_def
          split: sum.splits option.splits)
  next
    case False
    show ?thesis
      using res a
      by (auto simp: signOnlyTransaction_def Transaction_from_plain [OF a False] Let_def
          split: sum.splits option.splits)
  qed
qed

theorem signing_text_prefixed_witness:
  "\<exists>r w'. signOnlyTransaction sample_signer_env sample_world 0 = (r, w') \<and>
          signRequests w' = signRequests sample_world @ [''CKB (Bitcoin Layer) transaction: 0xab'']"
  using signing_text_prefixed [OF sample_run] sample_run
  by (simp add: sample_world_def)

end
